theory Spec2Isabelle
  imports
    Complex_Main
    "HOL-Library.Char_ord"
    "HOL-Library.List_Lexorder"
    "HOL-Library.Product_Lexorder"
    "HOL-Library.Multiset"
begin

section \<open>Python values\<close>

text \<open>
  A Python \<open>str\<close> is modelled by its UTF-8 bytes (\<open>string\<close> is \<open>char list\<close>, a
  \<open>char\<close> is a byte). Python compares strings by code point and UTF-8 keeps that order
  byte-wise, so the lexicographic order on \<open>string\<close> (\<open>List_Lexorder\<close> over
  \<open>Char_ord\<close>) is the order \<open>sorted\<close> and \<open>sort_values\<close> use.

  A \<open>float64\<close> is modelled by an exact rational, the two infinities or NaN. Rounding to
  binary64 and overflow are outside the model: the decimal texts a sheet holds are read
  as the rationals they denote.
\<close>

datatype pyfloat = Fin rat | PInf | NInf | NaN

text \<open>What an \<open>object\<close> column holds: a string, a bool, or a missing value (\<open>pd.NA\<close>).\<close>

datatype pyobj = PStr string | PBool bool | PNA

datatype error = WorksheetNotFound | TypeError | APIError

subsection \<open>Character classes and \<open>str\<close> methods\<close>

definition isspace_ascii :: "char \<Rightarrow> bool" where
  "isspace_ascii c = (c \<in> set [CHR '' '', CHR 0x09, CHR 0x0A, CHR 0x0B, CHR 0x0C, CHR 0x0D])"

definition isdigit_ascii :: "char \<Rightarrow> bool" where
  "isdigit_ascii c = (CHR ''0'' \<le> c \<and> c \<le> CHR ''9'')"

definition tolower_ascii :: "char \<Rightarrow> char" where
  "tolower_ascii c = (if CHR ''A'' \<le> c \<and> c \<le> CHR ''Z'' then char_of (of_char c + (32::nat)) else c)"

text \<open>
  \<open>str.lower()\<close>, on the ASCII letters. No character outside ASCII lowers to a letter of
  \<open>hoja1\<close> or \<open>sheet1\<close>, the only strings a lowered title is compared with.
\<close>

definition lower :: "string \<Rightarrow> string" where
  "lower s = map tolower_ascii s"

text \<open>\<open>s.replace(a, b)\<close> for one-character \<open>a\<close> and \<open>b\<close>.\<close>

definition str_replace :: "char \<Rightarrow> char \<Rightarrow> string \<Rightarrow> string" where
  "str_replace a b s = map (\<lambda>c. if c = a then b else c) s"

subsection \<open>\<open>pd.to_numeric(..., errors='coerce')\<close> on a text cell\<close>

text \<open>
  pandas reads a text cell with its C tokenizer: blanks, an optional sign, digits with
  an optional fraction after a point (at least one digit in all), an optional exponent
  (\<open>e\<close> or \<open>E\<close>, optional sign, at least one digit), blanks, and nothing else. The
  spellings of infinity and of NaN are recognised apart, in any case. Any other text is
  coerced to NaN.
\<close>

text \<open>Values are kept in \<open>int\<close>, whose numerals are binary.\<close>

definition digit_value :: "char \<Rightarrow> int" where
  "digit_value c = of_char c - 48"

definition digits_value :: "string \<Rightarrow> int" where
  "digits_value s = foldl (\<lambda>n c. 10 * n + digit_value c) 0 s"

definition strip_sign :: "string \<Rightarrow> bool \<times> string" where
  "strip_sign s =
     (case s of
        [] \<Rightarrow> (False, [])
      | c # r \<Rightarrow> if c = CHR ''-'' then (True, r) else if c = CHR ''+'' then (False, r) else (False, s))"

text \<open>The exponent part: the exponent read and the rest of the text. An \<open>e\<close> with no
  digit after it is not consumed.\<close>

definition exponent_part :: "string \<Rightarrow> int \<times> string" where
  "exponent_part s =
     (case s of
        [] \<Rightarrow> (0, [])
      | c # r \<Rightarrow>
          if c = CHR ''e'' \<or> c = CHR ''E'' then
            (let (negative, r1) = strip_sign r;
                 ds = takeWhile isdigit_ascii r1
             in if ds = [] then (0, s)
                else ((if negative then - digits_value ds else digits_value ds),
                      dropWhile isdigit_ascii r1))
          else (0, s))"

definition pow10 :: "int \<Rightarrow> rat" where
  "pow10 e = (if 0 \<le> e then 10 ^ nat e else 1 / 10 ^ nat (- e))"

definition xstrtod :: "string \<Rightarrow> rat option" where
  "xstrtod s =
     (let (negative, p1) = strip_sign (dropWhile isspace_ascii s);
          ip = takeWhile isdigit_ascii p1;
          p2 = dropWhile isdigit_ascii p1;
          has_point = (p2 \<noteq> [] \<and> hd p2 = CHR ''.'');
          fp = (if has_point then takeWhile isdigit_ascii (tl p2) else []);
          p3 = (if has_point then dropWhile isdigit_ascii (tl p2) else p2)
      in if ip = [] \<and> fp = [] then None
         else
           (let number = of_int (digits_value (ip @ fp)) :: rat;
                (ex, p4) = exponent_part p3
            in if dropWhile isspace_ascii p4 \<noteq> [] then None
               else Some ((if negative then - number else number) * pow10 (ex - int (length fp)))))"

definition to_numeric_str :: "string \<Rightarrow> pyfloat" where
  "to_numeric_str s =
     (case xstrtod s of
        Some r \<Rightarrow> Fin r
      | None \<Rightarrow>
          if lower s \<in> set [''inf'', ''+inf'', ''infinity'', ''+infinity''] then PInf
          else if lower s \<in> set [''-inf'', ''-infinity''] then NInf
          else NaN)"

text \<open>\<open>Series.fillna(0.0)\<close> on a float.\<close>

definition fillna0 :: "pyfloat \<Rightarrow> pyfloat" where
  "fillna0 x = (case x of NaN \<Rightarrow> Fin 0 | _ \<Rightarrow> x)"

subsection \<open>\<open>"{:g}".format(x)\<close>\<close>

text \<open>
  The general format with its default precision of six significant digits: the value is
  rounded (half to even) to six digits; with \<open>X\<close> the decimal exponent of the rounded
  value, fixed notation is used when \<open>-4 \<le> X < 6\<close> and scientific notation otherwise;
  trailing zeros of the fraction are removed, and the point with them when nothing is
  left; the exponent is written with a sign and at least two digits.
\<close>

function digits10 :: "int \<Rightarrow> string" where
  "digits10 n = (if n < 10 then [char_of (48 + n)] else digits10 (n div 10) @ [char_of (48 + n mod 10)])"
  by pat_completeness auto
termination
  by (relation "measure nat") auto

function ilog10 :: "int \<Rightarrow> int" where
  "ilog10 n = (if n < 10 then 0 else 1 + ilog10 (n div 10))"
  by pat_completeness auto
termination
  by (relation "measure nat") auto

text \<open>The decimal exponent of a positive rational: \<open>10 ^ e \<le> a < 10 ^ (e + 1)\<close>.\<close>

definition exponent10 :: "rat \<Rightarrow> int" where
  "exponent10 a =
     (if 1 \<le> a then ilog10 \<lfloor>a\<rfloor>
      else - (1 + ilog10 (\<lceil>1 / a\<rceil> - 1)))"

definition round_half_even :: "rat \<Rightarrow> int" where
  "round_half_even r =
     (let f = \<lfloor>r\<rfloor>; d = r - of_int f
      in if d < 1 / 2 then f else if 1 / 2 < d then f + 1 else if even f then f else f + 1)"

definition strip_zeros :: "string \<Rightarrow> string" where
  "strip_zeros s = rev (dropWhile (\<lambda>c. c = CHR ''0'') (rev s))"

definition with_fraction :: "string \<Rightarrow> string \<Rightarrow> string" where
  "with_fraction ip fp = (let f = strip_zeros fp in if f = [] then ip else ip @ ''.'' @ f)"

definition format_exponent :: "int \<Rightarrow> string" where
  "format_exponent e =
     (let ds = digits10 \<bar>e\<bar>
      in ''e'' @ (if e < 0 then ''-'' else ''+'') @ (if length ds < 2 then ''0'' @ ds else ds))"

text \<open>The six significant digits of a positive rational and the exponent of the rounded
  value.\<close>

definition significant6 :: "rat \<Rightarrow> int \<times> int" where
  "significant6 a =
     (let e = exponent10 a;
          m = round_half_even (a * pow10 (5 - e))
      in if 1000000 \<le> m then (100000, e + 1) else (m, e))"

text \<open>The text for the six digits \<open>m\<close> and the exponent \<open>e\<close>.\<close>

definition layout6 :: "int \<Rightarrow> int \<Rightarrow> string" where
  "layout6 m e =
     (let ds = digits10 m
      in if - 4 \<le> e \<and> e < 6 then
           (if 0 \<le> e then with_fraction (take (nat e + 1) ds) (drop (nat e + 1) ds)
            else with_fraction ''0'' (replicate (nat (- e - 1)) (CHR ''0'') @ ds))
         else with_fraction (take 1 ds) (drop 1 ds) @ format_exponent e)"

definition format_g_pos :: "rat \<Rightarrow> string" where
  "format_g_pos a = (let (m, e) = significant6 a in layout6 m e)"

definition format_g :: "pyfloat \<Rightarrow> string" where
  "format_g x =
     (case x of
        Fin r \<Rightarrow> if r = 0 then ''0'' else if r < 0 then ''-'' @ format_g_pos (- r) else format_g_pos r
      | PInf \<Rightarrow> ''inf''
      | NInf \<Rightarrow> ''-inf''
      | NaN \<Rightarrow> ''nan'')"

section \<open>The item table\<close>

definition verduras :: string where
  "verduras = [CHR 0xF0, CHR 0x9F, CHR 0xA5, CHR 0xA6] @ '' Verduras''"

definition frutas :: string where
  "frutas = [CHR 0xF0, CHR 0x9F, CHR 0x8D, CHR 0x93] @ '' Frutas''"

definition carnes :: string where
  "carnes = [CHR 0xF0, CHR 0x9F, CHR 0xA5, CHR 0xA9] @ '' Carnes''"

definition abarrotes :: string where
  "abarrotes = [CHR 0xF0, CHR 0x9F, CHR 0x9B, CHR 0x92] @ '' Abarrotes''"

definition limpieza :: string where
  "limpieza = [CHR 0xF0, CHR 0x9F, CHR 0xA7, CHR 0xBC] @ '' Limpieza''"

definition otros :: string where
  "otros = [CHR 0xF0, CHR 0x9F, CHR 0x93, CHR 0xA6] @ '' Otros''"

definition CATEGORIAS :: "string list" where
  "CATEGORIAS = [verduras, frutas, carnes, abarrotes, limpieza, otros]"

definition UNIDADES :: "string list" where
  "UNIDADES = [''U (Unidad)'', ''kg'', ''g'', ''lb (Libra)'', ''L (Litro)'', ''ml'']"

definition expected_cols :: "string list" where
  "expected_cols = [''category'', ''name'', ''quantity'', ''unit'', ''price'', ''is_checked'']"

text \<open>
  What \<open>worksheet.get_all_values()\<close> returns: the rows of the sheet as text, the header
  first. gspread pads the rows to one length, and the labels of a header the application
  wrote are distinct; \<open>wf_grid\<close> says both.
\<close>

type_synonym grid = "string list list"

definition wf_grid :: "grid \<Rightarrow> bool" where
  "wf_grid data = (data = [] \<or> (distinct (hd data) \<and> list_all (\<lambda>r. length r = length (hd data)) data))"

text \<open>
  A row of the frame \<open>read_worksheet_as_df\<close> returns: every cell is the sheet's text, or
  missing (\<open>None\<close>: \<open>pd.NA\<close> in a column the header lacks, NaN for a category outside
  \<open>CATEGORIAS\<close>).
\<close>

record raw_row =
  r_category :: "string option"
  r_name :: "string option"
  r_quantity :: "string option"
  r_unit :: "string option"
  r_price :: "string option"
  r_is_checked :: "string option"

text \<open>A row of the typed frame: \<open>float64\<close> quantity and price, \<open>bool\<close> is_checked.\<close>

record item =
  category :: "string option"
  name :: "string option"
  quantity :: pyfloat
  unit :: "string option"
  price :: pyfloat
  is_checked :: bool

subsection \<open>\<open>read_worksheet_as_df\<close>\<close>

fun index_of :: "'a \<Rightarrow> 'a list \<Rightarrow> nat option" where
  "index_of x [] = None"
| "index_of x (y # ys) = (if x = y then Some 0 else map_option Suc (index_of x ys))"

text \<open>The cell of column \<open>col\<close> in a record: \<open>pd.NA\<close> when the header has no such column.\<close>

definition column :: "string list \<Rightarrow> string list \<Rightarrow> string \<Rightarrow> string option" where
  "column header rec col =
     (case index_of col header of
        None \<Rightarrow> None
      | Some i \<Rightarrow> if i < length rec then Some (rec ! i) else None)"

text \<open>\<open>pd.Categorical(values, categories=CATEGORIAS, ordered=True)\<close> on one cell.\<close>

definition categorical :: "string option \<Rightarrow> string option" where
  "categorical c = (case c of None \<Rightarrow> None | Some s \<Rightarrow> if s \<in> set CATEGORIAS then Some s else None)"

text \<open>
  \<open>sort_values(by=["category", "name"], ascending=True)\<close>: a stable sort on the code of
  the category, then on the name, missing values last in each.
\<close>

definition category_code :: "string option \<Rightarrow> nat" where
  "category_code c =
     (case c of
        None \<Rightarrow> length CATEGORIAS
      | Some s \<Rightarrow> (case index_of s CATEGORIAS of None \<Rightarrow> length CATEGORIAS | Some i \<Rightarrow> i))"

definition name_key :: "string option \<Rightarrow> nat \<times> string" where
  "name_key n = (case n of None \<Rightarrow> (1, []) | Some s \<Rightarrow> (0, s))"

definition sort_values_key :: "raw_row \<Rightarrow> nat \<times> nat \<times> string" where
  "sort_values_key r = (category_code (r_category r), name_key (r_name r))"

definition record_row :: "string list \<Rightarrow> string list \<Rightarrow> raw_row" where
  "record_row header rec =
     \<lparr> r_category = categorical (column header rec ''category''),
       r_name = column header rec ''name'',
       r_quantity = column header rec ''quantity'',
       r_unit = column header rec ''unit'',
       r_price = column header rec ''price'',
       r_is_checked = column header rec ''is_checked'' \<rparr>"

definition read_worksheet_as_df :: "grid \<Rightarrow> raw_row list" where
  "read_worksheet_as_df data =
     (case data of
        [] \<Rightarrow> []
      | header # records \<Rightarrow> sort_key sort_values_key (map (record_row header) records))"

subsection \<open>\<open>write_df_to_worksheet\<close>\<close>

definition format_to_comma_string :: "pyfloat \<Rightarrow> string" where
  "format_to_comma_string x =
     (if x = NaN then [] else str_replace (CHR ''.'') (CHR '','') (format_g x))"

text \<open>\<open>astype(str)\<close> on the category column: NaN becomes the text \<open>nan\<close>.\<close>

definition category_astype_str :: "string option \<Rightarrow> string" where
  "category_astype_str c = (case c of None \<Rightarrow> ''nan'' | Some s \<Rightarrow> s)"

definition fillna_empty :: "string option \<Rightarrow> pyobj" where
  "fillna_empty c = (case c of None \<Rightarrow> PStr [] | Some s \<Rightarrow> PStr s)"

definition values_row :: "item \<Rightarrow> pyobj list" where
  "values_row i =
     [PStr (category_astype_str (category i)), fillna_empty (name i),
      PStr (format_to_comma_string (quantity i)), fillna_empty (unit i),
      PStr (format_to_comma_string (price i)), PBool (is_checked i)]"

text \<open>The \<open>values\<close> handed to \<open>worksheet.update\<close>: the header and the data rows.\<close>

definition values_of :: "item list \<Rightarrow> pyobj list list" where
  "values_of df = map PStr expected_cols # map values_row df"

text \<open>
  The sheet is the storage collaborator. What it shows for a value entered with
  \<open>USER_ENTERED\<close>, and \<open>get_all_values\<close> returns later, is modelled as the text itself
  for a string and \<open>TRUE\<close> or \<open>FALSE\<close> for a bool.
\<close>

definition cell_text :: "pyobj \<Rightarrow> string" where
  "cell_text v = (case v of PStr s \<Rightarrow> s | PBool b \<Rightarrow> (if b then ''TRUE'' else ''FALSE'') | PNA \<Rightarrow> [])"

definition stored_grid :: "item list \<Rightarrow> grid" where
  "stored_grid df = map (map cell_text) (values_of df)"

text \<open>
  The spreadsheet: its tabs in order, each a title and a grid. The calls to the service
  can fail; whether \<open>clear\<close> and \<open>update\<close> go through is a parameter of the model.
\<close>

type_synonym spreadsheet = "(string \<times> grid) list"

datatype api = Api_ok | Clear_fails | Update_fails

definition worksheet :: "spreadsheet \<Rightarrow> string \<Rightarrow> error + grid" where
  "worksheet ss title = (case map_of ss title of None \<Rightarrow> Inl WorksheetNotFound | Some g \<Rightarrow> Inr g)"

definition set_grid :: "spreadsheet \<Rightarrow> string \<Rightarrow> grid \<Rightarrow> spreadsheet" where
  "set_grid ss title g = map (\<lambda>(t, old). if t = title then (t, g) else (t, old)) ss"

text \<open>Returns the spreadsheet after the call and the function's result (\<open>False\<close> after
  the caught failure, which it reports with \<open>st.error\<close>).\<close>

definition write_df_to_worksheet :: "api \<Rightarrow> spreadsheet \<Rightarrow> string \<Rightarrow> item list \<Rightarrow> spreadsheet \<times> bool" where
  "write_df_to_worksheet a ss title df =
     (case a of
        Api_ok \<Rightarrow> (set_grid ss title (stored_grid df), True)
      | Clear_fails \<Rightarrow> (ss, False)
      | Update_fails \<Rightarrow> (set_grid ss title [], False))"

subsection \<open>\<open>get_default_template\<close>\<close>

definition tpl :: "string \<Rightarrow> string \<Rightarrow> rat \<Rightarrow> string \<Rightarrow> rat \<Rightarrow> item" where
  "tpl c n q u p =
     \<lparr> category = Some c, name = Some n, quantity = Fin q, unit = Some u, price = Fin p,
       is_checked = False \<rparr>"

definition get_default_template :: "item list" where
  "get_default_template =
    [tpl verduras (''Tomates'') (1) (''kg'') (0),
     tpl verduras (''Cebollas'') (3) (''lb (Libra)'') (0),
     tpl verduras (''Papa harinosa'') (6) (''lb (Libra)'') (12),
     tpl verduras (''Papa holadesa'') (3) (''lb (Libra)'') (6),
     tpl verduras (''Platano'') (6) (''U (Unidad)'') (10),
     tpl verduras (''Zapallo'') (1 / 2) (''kg'') (5),
     tpl verduras (''lechuga carola'') (2) (''U (Unidad)'') (13),
     tpl verduras (''Brocoli'') (1) (''U (Unidad)'') (8),
     tpl verduras (''Espinaca'') (2) (''U (Unidad)'') (8),
     tpl verduras (''choclo'') (6) (''U (Unidad)'') (20),
     tpl frutas (''Guineo'') (6) (''U (Unidad)'') (6),
     tpl frutas (''Manzana'') (4) (''U (Unidad)'') (10),
     tpl frutas (''Pera'') (3) (''U (Unidad)'') (10),
     tpl frutas (''Limon cambita'') (10) (''U (Unidad)'') (10),
     tpl frutas (''Limon de licuar'') (10) (''U (Unidad)'') (10),
     tpl frutas (''Pi'' @ [CHR 0xC3, CHR 0xB1] @ ''a'') (1) (''U (Unidad)'') (8),
     tpl frutas (''Arandanos'') (1) (''U (Unidad)'') (18),
     tpl frutas (''Frutillas'') (1) (''U (Unidad)'') (15),
     tpl carnes (''Pollo'') (2) (''U (Unidad)'') (90),
     tpl carnes (''Pollo (Pechuga)'') (1) (''U (Unidad)'') (26),
     tpl carnes (''Bollo chico'') (1) (''kg'') (70),
     tpl abarrotes (''Arroz'') (1) (''kg'') (0),
     tpl abarrotes (''Huevo Maple'') (1) (''U (Unidad)'') (24),
     tpl abarrotes (''Quezo'') (1 / 2) (''kg'') (22),
     tpl abarrotes (''Fideo codito'') (1) (''kg'') (8),
     tpl abarrotes (''Fideo espiral'') (1) (''kg'') (8),
     tpl abarrotes (''Papel higuineco 24'') (1) (''U (Unidad)'') (26),
     tpl abarrotes (''Servilleta mesa'') (1) (''U (Unidad)'') (15),
     tpl abarrotes (''Servilleta cocina'') (1) (''U (Unidad)'') (15),
     tpl abarrotes (''Ajo cabeza'') (1) (''U (Unidad)'') (2),
     tpl abarrotes (''Quinua'') (1 / 2) (''kg'') (10),
     tpl abarrotes (''Azucar Morena'') (1) (''kg'') (8),
     tpl abarrotes (''Azucar Blanca'') (1) (''kg'') (6),
     tpl abarrotes (''T'' @ [CHR 0xC3, CHR 0xA9] @ '' frutas Pack'') (1) (''U (Unidad)'') (25),
     tpl abarrotes (''T'' @ [CHR 0xC3, CHR 0xA9] @ '' canela Pack'') (1) (''U (Unidad)'') (12),
     tpl abarrotes (''T'' @ [CHR 0xC3, CHR 0xA9] @ '' manzanilla Pack'') (1) (''U (Unidad)'') (12),
     tpl abarrotes (''Agua bebe'') (3) (''L (Litro)'') (11),
     tpl limpieza (''Detergente ropa adultos'') (1) (''U (Unidad)'') (36),
     tpl limpieza (''Detergente ropa bebe'') (1) (''U (Unidad)'') (35),
     tpl limpieza (''Detergente ropa platos'') (1) (''U (Unidad)'') (25),
     tpl limpieza (''Lavandina'') (1) (''U (Unidad)'') (20),
     tpl limpieza (''Trapo de piso'') (1) (''U (Unidad)'') (6),
     tpl limpieza (''jaboncillo adulto'') (1) (''U (Unidad)'') (20),
     tpl limpieza (''jaboncillo bebe'') (1) (''U (Unidad)'') (20),
     tpl limpieza (''Pa'' @ [CHR 0xC3, CHR 0xB1] @ ''al bebe pack'') (1) (''U (Unidad)'') (90),
     tpl limpieza (''Bolsa de basura Grande pack'') (1) (''U (Unidad)'') (10),
     tpl otros (''Agua bebe'') (3) (''L (Litro)'') (11),
     tpl otros (''Pan Frances'') (5) (''U (Unidad)'') (5)]"

subsection \<open>\<open>get_all_lists\<close>\<close>

definition get_all_lists :: "spreadsheet \<Rightarrow> string list" where
  "get_all_lists ss = sort (filter (\<lambda>t. lower t \<notin> set [''hoja1'', ''sheet1'']) (map fst ss))"

subsection \<open>\<open>get_list_data\<close>\<close>

text \<open>\<open>dropna(how='all')\<close> drops the rows whose every cell is missing.\<close>

definition all_na :: "raw_row \<Rightarrow> bool" where
  "all_na r =
     (r_category r = None \<and> r_name r = None \<and> r_quantity r = None \<and> r_unit r = None \<and>
      r_price r = None \<and> r_is_checked r = None)"

text \<open>\<open>replace({'TRUE': True, 'FALSE': False, '': False})\<close> on one cell.\<close>

definition replace_checked :: "string option \<Rightarrow> pyobj" where
  "replace_checked c =
     (case c of
        None \<Rightarrow> PNA
      | Some s \<Rightarrow>
          if s = ''TRUE'' then PBool True
          else if s = ''FALSE'' then PBool False
          else if s = [] then PBool False
          else PStr s)"

text \<open>\<open>astype(bool)\<close> on one cell of an object column: Python's truth value; that of
  \<open>pd.NA\<close> raises \<open>TypeError\<close>.\<close>

definition astype_bool :: "pyobj \<Rightarrow> error + bool" where
  "astype_bool v = (case v of PBool b \<Rightarrow> Inr b | PStr s \<Rightarrow> Inr (s \<noteq> []) | PNA \<Rightarrow> Inl TypeError)"

definition coerce_checked :: "string option \<Rightarrow> error + bool" where
  "coerce_checked c = astype_bool (replace_checked c)"

text \<open>\<open>astype(str)\<close> on a cell of an object column.\<close>

definition astype_str :: "string option \<Rightarrow> string" where
  "astype_str c = (case c of None \<Rightarrow> ''<NA>'' | Some s \<Rightarrow> s)"

text \<open>\<open>astype(str).str.replace(',', '.')\<close>, then \<open>pd.to_numeric(errors='coerce')\<close>,
  \<open>astype('float64')\<close> and \<open>fillna(0.0)\<close>.\<close>

definition coerce_decimal :: "string option \<Rightarrow> pyfloat" where
  "coerce_decimal c = fillna0 (to_numeric_str (str_replace (CHR '','') (CHR ''.'') (astype_str c)))"

fun map_result :: "('a \<Rightarrow> error + 'b) \<Rightarrow> 'a list \<Rightarrow> error + 'b list" where
  "map_result f [] = Inr []"
| "map_result f (x # xs) =
     (case f x of
        Inl e \<Rightarrow> Inl e
      | Inr y \<Rightarrow> (case map_result f xs of Inl e \<Rightarrow> Inl e | Inr ys \<Rightarrow> Inr (y # ys)))"

definition typed_row :: "raw_row \<Rightarrow> error + item" where
  "typed_row r =
     (case coerce_checked (r_is_checked r) of
        Inl e \<Rightarrow> Inl e
      | Inr b \<Rightarrow>
          Inr \<lparr> category = r_category r, name = r_name r,
                quantity = coerce_decimal (r_quantity r), unit = r_unit r,
                price = coerce_decimal (r_price r), is_checked = b \<rparr>)"

text \<open>The part of \<open>get_list_data\<close> after the worksheet is found.\<close>

definition dropna_all :: "raw_row list \<Rightarrow> raw_row list" where
  "dropna_all df = filter (\<lambda>r. \<not> all_na r) df"

definition load_grid :: "grid \<Rightarrow> error + item list" where
  "load_grid data = map_result typed_row (dropna_all (read_worksheet_as_df data))"

definition get_list_data :: "spreadsheet \<Rightarrow> string \<Rightarrow> error + item list" where
  "get_list_data ss list_name =
     (case worksheet ss list_name of Inl e \<Rightarrow> Inl e | Inr data \<Rightarrow> load_grid data)"



section \<open>Actions on a list\<close>

text \<open>What an action shows: \<open>st.error\<close> or \<open>st.toast\<close> (the texts are left out).\<close>

datatype notice = St_error | St_toast

subsection \<open>\<open>delete_item\<close>\<close>


subsection \<open>\<open>save_instant_edit\<close>\<close>




subsection \<open>\<open>render_list_editor\<close>: the quick-add form of the shopping view\<close>

definition quick_add_shop ::
  "api \<Rightarrow> spreadsheet \<Rightarrow> string \<Rightarrow> string \<Rightarrow> string \<Rightarrow> rat \<Rightarrow> string \<Rightarrow> spreadsheet \<times> notice list" where
  "quick_add_shop a ss list_name q_n q_c q_q q_u =
     (case get_list_data ss list_name of
        Inl err \<Rightarrow> (ss, [St_error])
      | Inr items_df \<Rightarrow>
          (let new = \<lparr> category = Some q_c, name = Some q_n, quantity = Fin q_q, unit = Some q_u,
                       price = Fin 0, is_checked = False \<rparr>
           in case worksheet ss list_name of
                Inl err \<Rightarrow> (ss, [St_error])
              | Inr ws \<Rightarrow>
                  (let (ss', ok) = write_df_to_worksheet a ss list_name (items_df @ [new])
                   in (ss', if ok then [] else [St_error]))))"

subsection \<open>\<open>render_list_editor\<close>: the totals of the shopping view\<close>






section \<open>Creating a list\<close>

definition del_worksheet :: "spreadsheet \<Rightarrow> string \<Rightarrow> spreadsheet" where
  "del_worksheet ss title = filter (\<lambda>(t, g). t \<noteq> title) ss"

text \<open>\<open>add_worksheet\<close>: a new empty tab, the last one. The service refuses a title that a
  tab already has.\<close>

definition add_worksheet :: "spreadsheet \<Rightarrow> string \<Rightarrow> error + spreadsheet" where
  "add_worksheet ss title = (if title \<in> set (map fst ss) then Inl APIError else Inr (ss @ [(title, [])]))"

text \<open>The options of the select box \<open>Base\<close> and the value \<open>opts\<close> gives each.\<close>

datatype base = Vacia | Plantilla_Base | Copia string

definition opts :: "base \<Rightarrow> string option" where
  "opts b = (case b of Vacia \<Rightarrow> None | Plantilla_Base \<Rightarrow> Some ''default'' | Copia t \<Rightarrow> Some t)"

text \<open>\<open>pd.to_numeric(column, errors='coerce')\<close> on a cell of an object column, as the
  form applies it: the text is parsed as it is.\<close>

definition to_numeric_obj :: "string option \<Rightarrow> pyfloat" where
  "to_numeric_obj c = (case c of None \<Rightarrow> NaN | Some s \<Rightarrow> to_numeric_str s)"

definition copy_row :: "raw_row \<Rightarrow> item" where
  "copy_row r =
     \<lparr> category = r_category r, name = r_name r, quantity = fillna0 (to_numeric_obj (r_quantity r)),
       unit = r_unit r, price = fillna0 (Fin 0), is_checked = False \<rparr>"

text \<open>The frame the new list is seeded with, after the two \<open>to_numeric\<close> lines.\<close>

definition seed_df :: "spreadsheet \<Rightarrow> string option \<Rightarrow> error + item list" where
  "seed_df ss tid =
     (case tid of
        None \<Rightarrow> Inr []
      | Some t \<Rightarrow>
          if t = ''default'' then
            Inr (map (\<lambda>i. i\<lparr>price := fillna0 (price i), quantity := fillna0 (quantity i)\<rparr>)
                   get_default_template)
          else if t \<noteq> [] then
            (case worksheet ss t of
               Inl e \<Rightarrow> Inl e
             | Inr data \<Rightarrow> Inr (map copy_row (read_worksheet_as_df data)))
          else Inr [])"

text \<open>
  The retention step (\<open>Limpiar antiguas\<close>): with ten lists or more the first title is
  deleted; \<open>del_ok\<close> says whether the call to the service goes through. A failure is
  passed over in silence (\<open>except: pass\<close>).
\<close>

definition evict :: "bool \<Rightarrow> spreadsheet \<Rightarrow> string list \<Rightarrow> spreadsheet" where
  "evict del_ok ss list_titles =
     (if 10 \<le> length list_titles then
        (if del_ok then del_worksheet ss (hd list_titles) else ss)
      else ss)"

text \<open>The older variant reports the failure with \<open>st.error\<close> and stops the run
  (\<open>st.stop()\<close>): the second component says whether the run goes on.\<close>

definition evict_old :: "bool \<Rightarrow> spreadsheet \<Rightarrow> string list \<Rightarrow> spreadsheet \<times> bool \<times> notice list" where
  "evict_old del_ok ss list_titles =
     (if 10 \<le> length list_titles then
        (if del_ok then (del_worksheet ss (hd list_titles), True, [St_toast])
         else (ss, False, [St_error]))
      else (ss, True, []))"

datatype outcome = Created | Stopped | Raised error

text \<open>\<open>render_list_selector\<close>, when the form \<open>new_list\<close> is submitted.\<close>

definition new_list :: "bool \<Rightarrow> api \<Rightarrow> spreadsheet \<Rightarrow> string \<Rightarrow> base \<Rightarrow> spreadsheet \<times> notice list \<times> outcome" where
  "new_list del_ok a ss name' templ =
     (let list_titles = get_all_lists ss
      in if name' \<in> set list_titles then (ss, [St_error], Stopped)
         else
           (let ss1 = evict del_ok ss list_titles
            in case seed_df ss1 (opts templ) of
                 Inl e \<Rightarrow> (ss1, [], Raised e)
               | Inr df \<Rightarrow>
                   (case add_worksheet ss1 name' of
                      Inl e \<Rightarrow> (ss1, [], Raised e)
                    | Inr ss2 \<Rightarrow>
                        (let (ss3, ok) = write_df_to_worksheet a ss2 name' df
                         in (ss3, (if ok then [] else [St_error]), Created)))))"

text \<open>The order of a loaded list: the position of the category in \<open>CATEGORIAS\<close>
  (after all of them for a category outside it), then the name.\<close>

definition item_key :: "item \<Rightarrow> nat \<times> nat \<times> string" where
  "item_key i = (category_code (category i), name_key (name i))"


text \<open>What a load reads back from the text a write stores for a float.\<close>

definition reread :: "pyfloat \<Rightarrow> pyfloat" where
  "reread x = coerce_decimal (Some (format_to_comma_string x))"

text \<open>A rational rounded to six significant digits, half to even.\<close>

definition round6 :: "rat \<Rightarrow> rat" where
  "round6 r =
     (if r = 0 then 0
      else (let (m, e) = significant6 \<bar>r\<bar> in sgn r * (of_int m * pow10 (e - 5))))"


text \<open>The item a load returns for the row a write stores for an item.\<close>

definition reloaded :: "item \<Rightarrow> item" where
  "reloaded i =
     \<lparr> category = categorical (Some (category_astype_str (category i))),
       name = Some (case name i of None \<Rightarrow> [] | Some s \<Rightarrow> s),
       quantity = reread (quantity i),
       unit = Some (case unit i of None \<Rightarrow> [] | Some s \<Rightarrow> s),
       price = reread (price i),
       is_checked = is_checked i \<rparr>"

section \<open>Auxiliary facts\<close>

declare digits10.simps [simp del] ilog10.simps [simp del]

lemma map_result_Inr_iff:
  "map_result f xs = Inr ys \<longleftrightarrow> map f xs = map Inr ys"
proof (induction xs arbitrary: ys)
  case Nil
  show ?case by auto
next
  case (Cons x xs)
  show ?case
    by (cases ys) (auto simp: Cons.IH [symmetric] split: sum.splits)
qed

lemma map_result_Inl:
  "map_result f xs = Inl e \<Longrightarrow> \<exists>x\<in>set xs. f x = Inl e"
  by (induction xs) (auto split: sum.splits)

lemma map_result_fails:
  "x \<in> set xs \<Longrightarrow> f x = Inl e \<Longrightarrow> \<exists>e'. map_result f xs = Inl e'"
  by (induction xs) (auto split: sum.splits)

lemma coerce_checked_Some: "coerce_checked (Some s) = Inr (s \<noteq> ''FALSE'' \<and> s \<noteq> [])"
  by (auto simp: coerce_checked_def replace_checked_def astype_bool_def)

lemma coerce_checked_None: "coerce_checked None = Inl TypeError"
  by (simp add: coerce_checked_def replace_checked_def astype_bool_def)


lemma typed_row_Inl: "typed_row r = Inl e \<longleftrightarrow> (r_is_checked r = None \<and> e = TypeError)"
  by (cases "r_is_checked r") (auto simp: typed_row_def coerce_checked_Some coerce_checked_None)



text \<open>A load that succeeds returns one item for each row that \<open>dropna\<close> keeps, in order.\<close>

lemma load_grid_rows:
  assumes "load_grid data = Inr items"
  shows "map typed_row (dropna_all (read_worksheet_as_df data)) = map Inr items"
  using assms by (simp add: load_grid_def map_result_Inr_iff)

lemma load_grid_length:
  assumes "load_grid data = Inr items"
  shows "length items = length (dropna_all (read_worksheet_as_df data))"
  using load_grid_rows [OF assms] by (metis length_map)

lemma load_grid_nth:
  assumes "load_grid data = Inr items" and "k < length items"
  shows "typed_row (dropna_all (read_worksheet_as_df data) ! k) = Inr (items ! k)"
proof -
  have "map typed_row (dropna_all (read_worksheet_as_df data)) ! k = map Inr items ! k"
    using load_grid_rows [OF assms(1)] by simp
  then show ?thesis
    using assms(2) load_grid_length [OF assms(1)] by simp
qed

lemma map_fields:
  assumes "map h xs = map Inr ys" and "\<And>x y. h x = Inr y \<Longrightarrow> f y = g x"
  shows "map f ys = map g xs"
  using assms(1)
proof (induction xs arbitrary: ys)
  case Nil
  then show ?case by simp
next
  case (Cons x xs)
  then obtain y ys' where ys: "ys = y # ys'" by (cases ys) auto
  with Cons.prems have "h x = Inr y" and "map h xs = map Inr ys'" by simp_all
  then show ?case
    using Cons.IH [of ys'] assms(2) [of x y] ys by simp
qed

lemma typed_row_fields:
  assumes "typed_row r = Inr i"
  shows "category i = r_category r" and "name i = r_name r" and "unit i = r_unit r"
    and "quantity i = coerce_decimal (r_quantity r)" and "price i = coerce_decimal (r_price r)"
    and "coerce_checked (r_is_checked r) = Inr (is_checked i)"
  using assms by (auto simp: typed_row_def split: sum.splits)

lemma load_grid_fields:
  assumes "load_grid data = Inr items"
  shows "map category items = map r_category (dropna_all (read_worksheet_as_df data))"
    and "map name items = map r_name (dropna_all (read_worksheet_as_df data))"
    and "map unit items = map r_unit (dropna_all (read_worksheet_as_df data))"
    and "map quantity items = map (\<lambda>r. coerce_decimal (r_quantity r)) (dropna_all (read_worksheet_as_df data))"
    and "map price items = map (\<lambda>r. coerce_decimal (r_price r)) (dropna_all (read_worksheet_as_df data))"
    and "map (\<lambda>i. Inr (is_checked i)) items
           = map (\<lambda>r. coerce_checked (r_is_checked r)) (dropna_all (read_worksheet_as_df data))"
  by (rule map_fields [OF load_grid_rows [OF assms]], simp add: typed_row_fields)+

lemma read_worksheet_as_df_eq:
  "read_worksheet_as_df data = sort_key sort_values_key (map (record_row (hd data)) (tl data))"
  by (cases data) (simp_all add: read_worksheet_as_df_def)

lemma mset_kept_rows:
  "mset (dropna_all (read_worksheet_as_df data))
     = filter_mset (\<lambda>r. \<not> all_na r) (mset (map (record_row (hd data)) (tl data)))"
  by (simp add: dropna_all_def read_worksheet_as_df_eq)


lemma item_key_typed_row:
  "typed_row r = Inr i \<Longrightarrow> item_key i = sort_values_key r"
  by (simp add: item_key_def sort_values_key_def typed_row_fields)








lemma length_kept_rows:
  "length (dropna_all (read_worksheet_as_df data))
     = length (filter (\<lambda>rec. \<not> all_na (record_row (hd data) rec)) (tl data))"
proof -
  have "size (mset (dropna_all (read_worksheet_as_df data)))
      = size (filter_mset (\<lambda>r. \<not> all_na r) (mset (map (record_row (hd data)) (tl data))))"
    by (simp only: mset_kept_rows)
  also have "\<dots> = length (filter (\<lambda>r. \<not> all_na r) (map (record_row (hd data)) (tl data)))"
    by (metis mset_filter size_mset)
  also have "\<dots> = length (filter (\<lambda>rec. \<not> all_na (record_row (hd data) rec)) (tl data))"
    by (simp add: filter_map comp_def)
  finally show ?thesis by simp
qed





lemma set_get_all_lists: "set (get_all_lists ss) \<subseteq> set (map fst ss)"
  by (auto simp: get_all_lists_def)

lemma sorted_get_all_lists: "sorted (get_all_lists ss)"
  by (simp add: get_all_lists_def)

lemma distinct_get_all_lists: "distinct (map fst ss) \<Longrightarrow> distinct (get_all_lists ss)"
  by (simp add: get_all_lists_def)

lemma hd_least:
  assumes "sorted xs" and "t \<in> set xs"
  shows "hd xs \<le> t"
  using assms by (cases xs) auto

lemma mset_filter_neq:
  assumes "distinct xs" and "x \<in> set xs"
  shows "mset (filter (\<lambda>y. y \<noteq> x) xs) = mset xs - {#x#}"
proof -
  have "filter (\<lambda>y. y \<noteq> x) xs = removeAll x xs"
    by (induction xs) auto
  also have "\<dots> = remove1 x xs"
    using assms(1) by (simp add: distinct_remove1_removeAll)
  finally show ?thesis by simp
qed

lemma titles_del_worksheet: "map fst (del_worksheet ss h) = filter (\<lambda>t. t \<noteq> h) (map fst ss)"
  by (induction ss) (auto simp: del_worksheet_def)

lemma titles_set_grid: "map fst (set_grid ss title g) = map fst ss"
  by (induction ss) (auto simp: set_grid_def)

lemma get_all_lists_snoc:
  assumes "lower n \<notin> set [''hoja1'', ''sheet1'']"
  shows "mset (get_all_lists (ss @ [(n, g)])) = add_mset n (mset (get_all_lists ss))"
  using assms by (simp add: get_all_lists_def)

lemma get_all_lists_set_grid: "get_all_lists (set_grid ss title g) = get_all_lists ss"
  by (simp add: get_all_lists_def titles_set_grid)

lemma get_all_lists_del:
  assumes "distinct (map fst ss)" and "h \<in> set (get_all_lists ss)"
  shows "mset (get_all_lists (del_worksheet ss h)) = mset (get_all_lists ss) - {#h#}"
proof -
  define ys where "ys = filter (\<lambda>t. lower t \<notin> set [''hoja1'', ''sheet1'']) (map fst ss)"
  have all: "get_all_lists ss = sort ys"
    by (simp add: get_all_lists_def ys_def)
  have "filter (\<lambda>t. lower t \<notin> set [''hoja1'', ''sheet1'']) (filter (\<lambda>t. t \<noteq> h) (map fst ss))
      = filter (\<lambda>t. t \<noteq> h) ys"
    unfolding ys_def by (induction ss) auto
  then have del: "get_all_lists (del_worksheet ss h) = sort (filter (\<lambda>t. t \<noteq> h) ys)"
    by (simp only: get_all_lists_def titles_del_worksheet)
  have "distinct ys" using assms(1) by (simp add: ys_def)
  moreover have "h \<in> set ys" using assms(2) all by simp
  ultimately have "mset (filter (\<lambda>t. t \<noteq> h) ys) = mset ys - {#h#}"
    by (rule mset_filter_neq)
  then show ?thesis
    by (simp only: all del mset_sort)
qed

lemma worksheet_found: "t \<in> set (map fst ss) \<Longrightarrow> \<exists>g. worksheet ss t = Inr g"
  by (cases "map_of ss t") (auto simp: worksheet_def map_of_eq_None_iff)

lemma seed_df_ok:
  assumes "\<forall>t. templ = Copia t \<longrightarrow> t \<in> set (map fst ss)"
  shows "\<exists>df. seed_df ss (opts templ) = Inr df"
proof (cases templ)
  case (Copia t)
  then obtain g where "worksheet ss t = Inr g"
    using assms worksheet_found by blast
  with Copia show ?thesis by (simp add: seed_df_def opts_def)
qed (simp_all add: seed_df_def opts_def)

lemma new_list_created:
  assumes "name' \<notin> set (map fst ss)"
    and "seed_df (evict del_ok ss (get_all_lists ss)) (opts templ) = Inr df"
    and "set (map fst (evict del_ok ss (get_all_lists ss))) \<subseteq> set (map fst ss)"
  shows "new_list del_ok Api_ok ss name' templ
     = (set_grid (evict del_ok ss (get_all_lists ss) @ [(name', [])]) name' (stored_grid df), [], Created)"
proof -
  have "name' \<notin> set (get_all_lists ss)"
    using assms(1) set_get_all_lists by blast
  moreover have "add_worksheet (evict del_ok ss (get_all_lists ss)) name'
      = Inr (evict del_ok ss (get_all_lists ss) @ [(name', [])])"
    using assms(1,3) by (auto simp: add_worksheet_def)
  ultimately show ?thesis
    using assms(2) by (simp add: new_list_def Let_def write_df_to_worksheet_def)
qed


lemma new_list_titles:
  assumes "name' \<notin> set (map fst ss)"
    and "lower name' \<notin> set [''hoja1'', ''sheet1'']"
    and "seed_df (evict del_ok ss (get_all_lists ss)) (opts templ) = Inr df"
    and "set (map fst (evict del_ok ss (get_all_lists ss))) \<subseteq> set (map fst ss)"
  shows "snd (new_list del_ok Api_ok ss name' templ) = ([], Created)"
    and "mset (get_all_lists (fst (new_list del_ok Api_ok ss name' templ)))
          = add_mset name' (mset (get_all_lists (evict del_ok ss (get_all_lists ss))))"
  using new_list_created [OF assms(1,3,4)] get_all_lists_snoc [OF assms(2)]
  by (simp_all add: get_all_lists_set_grid)

lemma insort_key_map:
  "insort_key k (f x) (map f ys) = map f (insort_key (\<lambda>y. k (f y)) x ys)"
  by (induction ys) simp_all

lemma sort_key_map:
  "sort_key k (map f xs) = map f (sort_key (\<lambda>y. k (f y)) xs)"
  by (induction xs) (simp_all add: insort_key_map)



lemma column_expected:
  assumes "length rec = 6"
  shows "column expected_cols rec ''category'' = Some (rec ! 0)"
    and "column expected_cols rec ''name'' = Some (rec ! 1)"
    and "column expected_cols rec ''quantity'' = Some (rec ! 2)"
    and "column expected_cols rec ''unit'' = Some (rec ! 3)"
    and "column expected_cols rec ''price'' = Some (rec ! 4)"
    and "column expected_cols rec ''is_checked'' = Some (rec ! 5)"
  using assms by (simp_all add: column_def expected_cols_def eval_nat_numeral)

lemma record_row_expected:
  assumes "length rec = 6"
  shows "record_row expected_cols rec =
     \<lparr> r_category = categorical (Some (rec ! 0)), r_name = Some (rec ! 1), r_quantity = Some (rec ! 2),
       r_unit = Some (rec ! 3), r_price = Some (rec ! 4), r_is_checked = Some (rec ! 5) \<rparr>"
  by (simp add: record_row_def column_expected [OF assms])

lemma typed_row_values:
  "typed_row (record_row expected_cols (map cell_text (values_row i))) = Inr (reloaded i)"
proof -
  have len: "length (map cell_text (values_row i)) = 6"
    by (simp add: values_row_def)
  have chk: "coerce_checked (Some (if is_checked i then ''TRUE'' else ''FALSE'')) = Inr (is_checked i)"
    by (simp add: coerce_checked_Some)
  show ?thesis
    unfolding record_row_expected [OF len]
    using chk
    by (cases "name i"; cases "unit i")
       (simp_all add: typed_row_def values_row_def cell_text_def fillna_empty_def reloaded_def reread_def)
qed

lemma not_all_na_values:
  "\<not> all_na (record_row expected_cols (map cell_text (values_row i)))"
proof -
  have len: "length (map cell_text (values_row i)) = 6"
    by (simp add: values_row_def)
  show ?thesis
    unfolding record_row_expected [OF len] by (simp add: all_na_def)
qed

lemma key_values:
  "sort_values_key (record_row expected_cols (map cell_text (values_row i))) = item_key (reloaded i)"
  using typed_row_values [of i] by (simp add: item_key_typed_row)

lemma map_result_map:
  assumes "\<And>x. x \<in> set xs \<Longrightarrow> f x = Inr (g x)"
  shows "map_result f xs = Inr (map g xs)"
  using assms by (simp add: map_result_Inr_iff)

lemma load_stored:
  "load_grid (stored_grid df) = Inr (map reloaded (sort_key (\<lambda>i. item_key (reloaded i)) df))"
proof -
  let ?raw = "\<lambda>i. record_row expected_cols (map cell_text (values_row i))"
  have hdr: "map (\<lambda>x. cell_text (PStr x)) xs = xs" for xs
    by (induction xs) (simp_all add: cell_text_def)
  have "read_worksheet_as_df (stored_grid df) = sort_key sort_values_key (map ?raw df)"
    by (simp add: read_worksheet_as_df_def stored_grid_def values_of_def hdr comp_def)
  also have "\<dots> = map ?raw (sort_key (\<lambda>i. item_key (reloaded i)) df)"
    by (simp add: sort_key_map key_values)
  finally have rd: "read_worksheet_as_df (stored_grid df) = map ?raw (sort_key (\<lambda>i. item_key (reloaded i)) df)" .
  have keep: "dropna_all (map ?raw xs) = map ?raw xs" for xs
    by (induction xs) (simp_all add: dropna_all_def not_all_na_values)
  have typed: "map_result typed_row (map ?raw xs) = Inr (map reloaded xs)" for xs
    by (simp add: map_result_Inr_iff typed_row_values)
  show ?thesis
    by (simp only: load_grid_def rd keep typed)
qed

lemma worksheet_set_grid_same:
  assumes "worksheet ss t = Inr g0"
  shows "worksheet (set_grid ss t g) t = Inr g"
proof -
  have "map_of ss t \<noteq> None \<Longrightarrow> map_of (set_grid ss t g) t = Some g"
    by (induction ss) (auto simp: set_grid_def split: if_splits)
  moreover have "map_of ss t \<noteq> None"
    using assms by (auto simp: worksheet_def split: option.splits)
  ultimately show ?thesis by (simp add: worksheet_def)
qed


lemma get_list_data_worksheet:
  assumes "get_list_data ss list_name = Inr df"
  shows "\<exists>data. worksheet ss list_name = Inr data \<and> load_grid data = Inr df"
  using assms by (auto simp: get_list_data_def split: sum.splits)

lemma format_zero: "format_to_comma_string (Fin 0) = ''0''"
  by code_simp

lemma reread_zero: "reread (Fin 0) = Fin 0"
  by code_simp

lemma stored_grid_snoc:
  "stored_grid (df @ [i]) = stored_grid df @ [map cell_text (values_row i)]"
  by (simp add: stored_grid_def values_of_def)









section \<open>The codec's coercions\<close>






section \<open>Loading a list\<close>




text \<open>
  Claim C8, as amended. A load drops the rows in which all six cells are missing, and only
  those: it returns as many items as there are stored rows with a cell present, and every
  such row, whatever its name cell, has an item with that name cell as its name (the
  empty text, or \<open>None\<close> when the header has no name column).
\<close>

theorem load_keeps_rows:
  assumes "wf_grid data" and "load_grid data = Inr items"
  shows "length items = length (filter (\<lambda>rec. \<not> all_na (record_row (hd data) rec)) (tl data))
     \<and> (\<forall>rec\<in>set (tl data). \<not> all_na (record_row (hd data) rec) \<longrightarrow>
           (\<exists>i\<in>set items. name i = column (hd data) rec ''name''))"
proof -
  have len: "length items = length (filter (\<lambda>rec. \<not> all_na (record_row (hd data) rec)) (tl data))"
    using load_grid_length [OF assms(2)] length_kept_rows by simp
  have ex: "\<exists>i\<in>set items. name i = column (hd data) rec ''name''"
    if "rec \<in> set (tl data)" "\<not> all_na (record_row (hd data) rec)" for rec
  proof -
    let ?r = "record_row (hd data) rec"
    have "?r \<in> set (dropna_all (read_worksheet_as_df data))"
      using that by (simp add: dropna_all_def read_worksheet_as_df_eq)
    then have "r_name ?r \<in> set (map r_name (dropna_all (read_worksheet_as_df data)))"
      by simp
    then have "r_name ?r \<in> set (map name items)"
      using load_grid_fields(2) [OF assms(2)] by simp
    moreover have "r_name ?r = column (hd data) rec ''name''"
      by (simp add: record_row_def)
    ultimately show ?thesis by auto
  qed
  show ?thesis using len ex by blast
qed


theorem load_keeps_rows_witness:
  "load_grid [expected_cols,
              [verduras, [], ''1'', ''kg'', ''0'', ''FALSE''],
              [frutas, ''Pera'', ''3'', ''kg'', ''0'', ''TRUE'']]
     = Inr [\<lparr> category = Some verduras, name = Some [], quantity = Fin 1, unit = Some ''kg'',
               price = Fin 0, is_checked = False \<rparr>,
            \<lparr> category = Some frutas, name = Some ''Pera'', quantity = Fin 3, unit = Some ''kg'',
               price = Fin 0, is_checked = True \<rparr>]
   \<and> length (filter (\<lambda>rec. \<not> all_na (record_row expected_cols rec))
        [[verduras, [], ''1'', ''kg'', ''0'', ''FALSE''],
         [frutas, ''Pera'', ''3'', ''kg'', ''0'', ''TRUE'']]) = 2"
proof -
  let ?g = "[expected_cols,
             [verduras, [], ''1'', ''kg'', ''0'', ''FALSE''],
             [frutas, ''Pera'', ''3'', ''kg'', ''0'', ''TRUE'']]"
  let ?items = "[\<lparr> category = Some verduras, name = Some [], quantity = Fin 1, unit = Some ''kg'',
                    price = Fin 0, is_checked = False \<rparr>,
                 \<lparr> category = Some frutas, name = Some ''Pera'', quantity = Fin 3, unit = Some ''kg'',
                    price = Fin 0, is_checked = True \<rparr>]"
  have w: "wf_grid ?g" by code_simp
  have h: "load_grid ?g = Inr ?items" by code_simp
  from load_keeps_rows [OF w h]
  have "length ?items = length (filter (\<lambda>rec. \<not> all_na (record_row (hd ?g) rec)) (tl ?g))"
    by blast
  with h show ?thesis by simp
qed

text \<open>
  The claim as stated fails: a row whose name cell is empty is returned, and so is a row
  of a sheet that has no name column.
\<close>

theorem load_nameless_counterexample:
  "load_grid [expected_cols, [verduras, [], ''1'', ''kg'', ''0'', ''FALSE'']]
     = Inr [\<lparr> category = Some verduras, name = Some [], quantity = Fin 1, unit = Some ''kg'',
               price = Fin 0, is_checked = False \<rparr>]
   \<and> load_grid [[''category'', ''quantity'', ''unit'', ''price'', ''is_checked''],
                [verduras, ''1'', ''kg'', ''0'', ''FALSE'']]
     = Inr [\<lparr> category = Some verduras, name = None, quantity = Fin 1, unit = Some ''kg'',
               price = Fin 0, is_checked = False \<rparr>]"
  by code_simp

section \<open>The shopping totals\<close>




section \<open>Retention\<close>

text \<open>
  Claim C2, as amended. Take a spreadsheet whose titles are distinct and of which ten
  lists or more are enumerated, a new name that is not empty, that no tab has (in any
  case of the letters) and that is not a reserved name, and as base the empty table, the template or a copy
  of a list other than the first. When the deletion goes through, the first enumerated
  title, which is the least, is deleted and the new list is added: the lists enumerated
  afterwards are the old ones without the first and with the new one, as many as before
  (ten when there were ten). When the deletion fails the form shows nothing and still
  creates the list, and the lists enumerated afterwards are the old ones and the new
  one; the older variant shows an error at that point and stops.
\<close>

theorem retention_on_create:
  assumes "distinct (map fst ss)"
    and "10 \<le> length (get_all_lists ss)"
    and "name' \<noteq> []"
    and "lower name' \<notin> lower ` set (map fst ss)"
    and "lower name' \<notin> set [''hoja1'', ''sheet1'']"
    and "\<forall>t. templ = Copia t \<longrightarrow> t \<in> set (tl (get_all_lists ss))"
  shows "snd (new_list True Api_ok ss name' templ) = ([], Created)
     \<and> mset (get_all_lists (fst (new_list True Api_ok ss name' templ)))
         = add_mset name' (mset (get_all_lists ss) - {#hd (get_all_lists ss)#})
     \<and> length (get_all_lists (fst (new_list True Api_ok ss name' templ))) = length (get_all_lists ss)
     \<and> (\<forall>t\<in>set (get_all_lists ss). hd (get_all_lists ss) \<le> t)
     \<and> snd (new_list False Api_ok ss name' templ) = ([], Created)
     \<and> mset (get_all_lists (fst (new_list False Api_ok ss name' templ)))
         = add_mset name' (mset (get_all_lists ss))
     \<and> evict_old False ss (get_all_lists ss) = (ss, False, [St_error])"
proof -
  let ?L = "get_all_lists ss"
  let ?h = "hd ?L"
  have ne: "?L \<noteq> []" using assms(2) by auto
  then have h_in: "?h \<in> set ?L" by simp
  have unused: "name' \<notin> set (map fst ss)" using assms(4) by auto
  have dist: "distinct ?L" using assms(1) by (rule distinct_get_all_lists)
  have ev_t: "evict True ss ?L = del_worksheet ss ?h"
    using assms(2) by (simp add: evict_def)
  have ev_f: "evict False ss ?L = ss"
    by (simp add: evict_def)
  have sub_t: "set (map fst (evict True ss ?L)) \<subseteq> set (map fst ss)"
    by (auto simp: ev_t titles_del_worksheet)
  have sub_f: "set (map fst (evict False ss ?L)) \<subseteq> set (map fst ss)"
    by (simp add: ev_f)
  have copy_t: "t \<in> set (map fst (evict True ss ?L))" if "templ = Copia t" for t
  proof -
    have "t \<in> set (tl ?L)" using assms(6) that by simp
    moreover have "?L = ?h # tl ?L" using ne by simp
    ultimately have "t \<in> set ?L" and "t \<noteq> ?h"
      using dist by (metis list.set_intros(2), metis distinct.simps(2))
    then show ?thesis
      using set_get_all_lists [of ss] by (auto simp: ev_t titles_del_worksheet)
  qed
  have copy_f: "t \<in> set (map fst (evict False ss ?L))" if "templ = Copia t" for t
  proof -
    have "t \<in> set (tl ?L)" using assms(6) that by simp
    then have "t \<in> set ?L" using ne by (metis list.set_sel(2))
    then show ?thesis using set_get_all_lists [of ss] by (auto simp: ev_f)
  qed
  obtain df_t where seed_t: "seed_df (evict True ss ?L) (opts templ) = Inr df_t"
    using seed_df_ok [of templ "evict True ss ?L"] copy_t by blast
  obtain df_f where seed_f: "seed_df (evict False ss ?L) (opts templ) = Inr df_f"
    using seed_df_ok [of templ "evict False ss ?L"] copy_f by blast
  note t = new_list_titles [OF unused assms(5) seed_t sub_t]
  note f = new_list_titles [OF unused assms(5) seed_f sub_f]
  have m_t: "mset (get_all_lists (fst (new_list True Api_ok ss name' templ)))
      = add_mset name' (mset ?L - {#?h#})"
    using t(2) get_all_lists_del [OF assms(1) h_in] by (simp add: ev_t)
  have "size (mset (get_all_lists (fst (new_list True Api_ok ss name' templ)))) = size (mset ?L)"
    using h_in assms(2) by (simp only: m_t) (simp add: size_Diff_singleton)
  then have len: "length (get_all_lists (fst (new_list True Api_ok ss name' templ))) = length ?L"
    by simp
  have least: "\<forall>t\<in>set ?L. ?h \<le> t"
    using hd_least [OF sorted_get_all_lists] by blast
  have m_f: "mset (get_all_lists (fst (new_list False Api_ok ss name' templ))) = add_mset name' (mset ?L)"
    using f(2) by (simp add: ev_f)
  have old: "evict_old False ss ?L = (ss, False, [St_error])"
    using assms(2) by (simp add: evict_old_def)
  show ?thesis
    using t(1) m_t len least f(1) m_f old by blast
qed


theorem retention_on_create_witness:
  "length (get_all_lists
     [(''Hoja1'', []), (''L01'', []), (''L02'', []), (''L03'', []),
      (''L04'', []), (''L05'', []), (''L06'', []), (''L07'', []),
      (''L08'', []), (''L09'', []), (''L10'', [])]) = 10
   \<and> length (get_all_lists (fst (new_list True Api_ok
     [(''Hoja1'', []), (''L01'', []), (''L02'', []), (''L03'', []),
      (''L04'', []), (''L05'', []), (''L06'', []), (''L07'', []),
      (''L08'', []), (''L09'', []), (''L10'', [])] ''L99'' (Copia ''L05'')))) = 10
   \<and> snd (new_list True Api_ok
     [(''Hoja1'', []), (''L01'', []), (''L02'', []), (''L03'', []),
      (''L04'', []), (''L05'', []), (''L06'', []), (''L07'', []),
      (''L08'', []), (''L09'', []), (''L10'', [])] ''L99'' (Copia ''L05'')) = ([], Created)"
proof -
  let ?ss = "[(''Hoja1'', []), (''L01'', []), (''L02'', []), (''L03'', []),
      (''L04'', []), (''L05'', []), (''L06'', []), (''L07'', []),
      (''L08'', []), (''L09'', []), (''L10'', [])]"
  have d: "distinct (map fst ?ss)" by code_simp
  have l: "length (get_all_lists ?ss) = 10" by code_simp
  then have n: "10 \<le> length (get_all_lists ?ss)" by simp
  have m: "''L99'' \<noteq> []" by simp
  have u: "lower ''L99'' \<notin> lower ` set (map fst ?ss)" by code_simp
  have r: "lower ''L99'' \<notin> set [''hoja1'', ''sheet1'']" by code_simp
  have "''L05'' \<in> set (tl (get_all_lists ?ss))" by code_simp
  then have c: "\<forall>t. Copia ''L05'' = Copia t \<longrightarrow> t \<in> set (tl (get_all_lists ?ss))" by simp
  from retention_on_create [OF d n m u r c] l show ?thesis by simp
qed

text \<open>
  The claim as stated fails: with eleven lists enumerated the total after the creation
  is eleven, and a deletion that fails is not reported (the form shows nothing and the
  total grows to eleven).
\<close>

theorem retention_counterexample:
  "length (get_all_lists
     [(''Hoja1'', []), (''L01'', []), (''L02'', []), (''L03'', []),
      (''L04'', []), (''L05'', []), (''L06'', []), (''L07'', []),
      (''L08'', []), (''L09'', []), (''L10'', []), (''L11'', [])]) = 11
   \<and> length (get_all_lists (fst (new_list True Api_ok
     [(''Hoja1'', []), (''L01'', []), (''L02'', []), (''L03'', []),
      (''L04'', []), (''L05'', []), (''L06'', []), (''L07'', []),
      (''L08'', []), (''L09'', []), (''L10'', []), (''L11'', [])] ''L99'' Vacia))) = 11
   \<and> snd (new_list False Api_ok
     [(''Hoja1'', []), (''L01'', []), (''L02'', []), (''L03'', []),
      (''L04'', []), (''L05'', []), (''L06'', []), (''L07'', []),
      (''L08'', []), (''L09'', []), (''L10'', [])] ''L99'' Vacia) = ([], Created)
   \<and> length (get_all_lists (fst (new_list False Api_ok
     [(''Hoja1'', []), (''L01'', []), (''L02'', []), (''L03'', []),
      (''L04'', []), (''L05'', []), (''L06'', []), (''L07'', []),
      (''L08'', []), (''L09'', []), (''L10'', [])] ''L99'' Vacia))) = 11"
  by code_simp

section \<open>Adding an item in the shopping view\<close>

text \<open>
  Claim C10. Whenever the list loads, submitting the quick-add form of the shopping view
  with an empty product name writes the loaded rows followed by a row with the selected
  category, the empty name, the quantity, the unit, price 0 and is_checked false; no
  check turns the empty name down. Loading the list again returns one item more, among
  them one with the empty name, that unit, price 0.0 and is_checked false.
\<close>

theorem quick_add_empty_name:
  assumes "get_list_data ss list_name = Inr items_df"
  shows "quick_add_shop Api_ok ss list_name [] q_c q_q q_u
           = (set_grid ss list_name
                (stored_grid items_df
                   @ [[q_c, [], format_to_comma_string (Fin q_q), q_u, ''0'', ''FALSE'']]), [])
     \<and> worksheet (fst (quick_add_shop Api_ok ss list_name [] q_c q_q q_u)) list_name
           = Inr (stored_grid items_df
                   @ [[q_c, [], format_to_comma_string (Fin q_q), q_u, ''0'', ''FALSE'']])
     \<and> (\<exists>items'. get_list_data (fst (quick_add_shop Api_ok ss list_name [] q_c q_q q_u)) list_name
                     = Inr items'
           \<and> length items' = length items_df + 1
           \<and> (\<exists>i\<in>set items'. name i = Some [] \<and> category i = categorical (Some q_c)
                 \<and> unit i = Some q_u \<and> price i = Fin 0 \<and> \<not> is_checked i))"
proof -
  let ?new = "\<lparr> category = Some q_c, name = Some [], quantity = Fin q_q, unit = Some q_u,
                 price = Fin 0, is_checked = False \<rparr>"
  let ?row = "[q_c, [], format_to_comma_string (Fin q_q), q_u, ''0'', ''FALSE'']"
  let ?ss' = "set_grid ss list_name (stored_grid (items_df @ [?new]))"
  obtain data where ws: "worksheet ss list_name = Inr data"
    using get_list_data_worksheet [OF assms] by blast
  have row: "map cell_text (values_row ?new) = ?row"
    by (simp add: values_row_def cell_text_def fillna_empty_def category_astype_str_def format_zero)
  have grid: "stored_grid (items_df @ [?new]) = stored_grid items_df @ [?row]"
    by (simp only: stored_grid_snoc row)
  have run: "quick_add_shop Api_ok ss list_name [] q_c q_q q_u = (?ss', [])"
    using assms ws by (simp add: quick_add_shop_def write_df_to_worksheet_def)
  have stored: "worksheet ?ss' list_name = Inr (stored_grid (items_df @ [?new]))"
    by (rule worksheet_set_grid_same [OF ws])
  let ?items' = "map reloaded (sort_key (\<lambda>i. item_key (reloaded i)) (items_df @ [?new]))"
  have reload: "get_list_data ?ss' list_name = Inr ?items'"
    by (simp add: get_list_data_def stored load_stored)
  have len: "length ?items' = length items_df + 1" by simp
  have "reloaded ?new \<in> set ?items'" by simp
  moreover have "name (reloaded ?new) = Some [] \<and> category (reloaded ?new) = categorical (Some q_c)
      \<and> unit (reloaded ?new) = Some q_u \<and> price (reloaded ?new) = Fin 0 \<and> \<not> is_checked (reloaded ?new)"
    by (simp add: reloaded_def category_astype_str_def reread_zero)
  ultimately have ex: "\<exists>i\<in>set ?items'. name i = Some [] \<and> category i = categorical (Some q_c)
      \<and> unit i = Some q_u \<and> price i = Fin 0 \<and> \<not> is_checked i"
    by blast
  show ?thesis
    using run stored reload len ex by (simp only: grid fst_conv) blast
qed


theorem quick_add_empty_name_witness:
  "worksheet
     (fst (quick_add_shop Api_ok
        [(''L'', [expected_cols, [verduras, ''Ajo'', ''1'', ''kg'', ''0'', ''FALSE'']])]
        ''L'' [] otros 2 ''kg'')) ''L''
   = Inr [expected_cols,
          [verduras, ''Ajo'', ''1'', ''kg'', ''0'', ''FALSE''],
          [otros, [], ''2'', ''kg'', ''0'', ''FALSE'']]"
proof -
  let ?ss = "[(''L'', [expected_cols, [verduras, ''Ajo'', ''1'', ''kg'', ''0'', ''FALSE'']])]"
  let ?items = "[\<lparr> category = Some verduras, name = Some ''Ajo'', quantity = Fin 1, unit = Some ''kg'',
                    price = Fin 0, is_checked = False \<rparr>]"
  have h: "get_list_data ?ss ''L'' = Inr ?items" by code_simp
  have e: "stored_grid ?items @ [[otros, [], format_to_comma_string (Fin 2), ''kg'', ''0'', ''FALSE'']]
      = [expected_cols,
         [verduras, ''Ajo'', ''1'', ''kg'', ''0'', ''FALSE''],
         [otros, [], ''2'', ''kg'', ''0'', ''FALSE'']]"
    by code_simp
  from quick_add_empty_name [OF h, of otros 2 "''kg''"]
  have "worksheet (fst (quick_add_shop Api_ok ?ss ''L'' [] otros 2 ''kg'')) ''L''
      = Inr (stored_grid ?items @ [[otros, [], format_to_comma_string (Fin 2), ''kg'', ''0'', ''FALSE'']])"
    by blast
  then show ?thesis by (simp only: e)
qed

section \<open>Deleting and editing by name\<close>




section \<open>Numbers and their text\<close>

subsection \<open>Digits\<close>








lemma ilog10_unique:
  "10 ^ k \<le> n \<Longrightarrow> n < 10 ^ Suc k \<Longrightarrow> ilog10 n = int k"
proof (induction k arbitrary: n)
  case 0
  then show ?case by (simp add: ilog10.simps [of n])
next
  case (Suc k)
  define p :: int where "p = 10 ^ k"
  have p: "0 < p" by (simp add: p_def)
  have lo: "10 * p \<le> n" and hi: "n < 100 * p"
    using Suc.prems by (simp_all add: p_def)
  have "p \<le> n div 10" and "n div 10 < 10 * p"
    using lo hi by linarith+
  then have "ilog10 (n div 10) = int k"
    using Suc.IH [of "n div 10"] by (simp add: p_def)
  moreover have "\<not> n < 10" using lo p by linarith
  ultimately show ?case
    by (simp add: ilog10.simps [of n])
qed


subsection \<open>Powers of ten\<close>

lemma pow10_powi: "pow10 e = power_int 10 e"
  by (simp add: pow10_def power_int_def power_inverse inverse_eq_divide power_one_over)

lemma pow10_add: "pow10 (a + b) = pow10 a * pow10 b"
  by (simp add: pow10_powi power_int_add)

lemma pow10_pos: "0 < pow10 e"
  by (simp add: pow10_def)

lemma pow10_nat: "pow10 (int k) = 10 ^ k"
  by (simp add: pow10_def)

lemma pow10_0: "pow10 0 = 1"
  by (simp add: pow10_def)

text \<open>A number with six significant digits: \<open>M\<close> has six digits and the exponent is \<open>E\<close>.\<close>

lemma six_bounds:
  assumes "100000 \<le> M" and "M < 1000000"
  shows "pow10 E \<le> of_int M * pow10 (E - 5)" and "of_int M * pow10 (E - 5) < pow10 (E + 1)"
proof -
  have "E = 5 + (E - 5)" by simp
  then have "pow10 E = pow10 5 * pow10 (E - 5)"
    by (metis pow10_add)
  also have "pow10 5 = 100000" by (simp add: pow10_def)
  finally have a: "pow10 E = 100000 * pow10 (E - 5)" .
  have "E + 1 = 6 + (E - 5)" by simp
  then have "pow10 (E + 1) = pow10 6 * pow10 (E - 5)"
    by (simp only: pow10_add)
  also have "pow10 6 = 1000000" by (simp add: pow10_def)
  finally have b: "pow10 (E + 1) = 1000000 * pow10 (E - 5)" .
  have m1: "(100000 :: rat) \<le> of_int M" using assms(1) by linarith
  have m2: "(of_int M :: rat) < 1000000" using assms(2) by linarith
  show "pow10 E \<le> of_int M * pow10 (E - 5)"
    unfolding a using m1 pow10_pos [of "E - 5"] by (simp add: mult_right_mono)
  show "of_int M * pow10 (E - 5) < pow10 (E + 1)"
    unfolding b using m2 pow10_pos [of "E - 5"] by (simp add: mult_strict_right_mono)
qed

lemma exponent10_six:
  assumes "100000 \<le> M" and "M < 1000000"
  shows "exponent10 (of_int M * pow10 (E - 5)) = E"
proof -
  let ?r = "of_int M * pow10 (E - 5) :: rat"
  note b = six_bounds [OF assms, of E]
  show ?thesis
  proof (cases "0 \<le> E")
    case True
    define k where "k = nat E"
    have E: "E = int k" using True by (simp add: k_def)
    have lo: "(10 :: rat) ^ k \<le> ?r" using b(1) by (simp add: E pow10_nat)
    have "pow10 (int k + 1) = 10 ^ Suc k"
      using pow10_nat [of "Suc k"] by (simp add: add.commute)
    then have hi: "?r < 10 ^ Suc k" using b(2) by (simp add: E)
    have one: "1 \<le> ?r"
      using lo by (meson one_le_numeral one_le_power order_trans)
    have "(10 :: int) ^ k \<le> \<lfloor>?r\<rfloor>"
      using lo by (simp add: le_floor_iff)
    moreover have "\<lfloor>?r\<rfloor> < 10 ^ Suc k"
      using hi by (simp add: floor_less_iff)
    ultimately have "ilog10 \<lfloor>?r\<rfloor> = int k"
      by (rule ilog10_unique)
    then show ?thesis
      using one by (simp add: exponent10_def E)
  next
    case False
    define k where "k = nat (- E - 1)"
    have E: "E = - int k - 1" using False by (simp add: k_def)
    have "nat (- E) = Suc k" and "nat (- (E + 1)) = k" and "\<not> 0 \<le> E" and "E + 1 \<le> 0"
      using False by (simp_all add: k_def)
    then have p1: "pow10 E = inverse (10 ^ Suc k)"
      and p2: "pow10 (E + 1) = (if E + 1 = 0 then 1 else inverse (10 ^ k))"
      by (simp_all only: pow10_def inverse_eq_divide if_False split: if_splits) auto
    have p2': "pow10 (E + 1) = inverse (10 ^ k)"
    proof (cases "E + 1 = 0")
      case True
      then have "k = 0" by (simp add: k_def)
      then show ?thesis using p2 True by simp
    next
      case False
      then show ?thesis using p2 by simp
    qed
    have pos: "0 < ?r" using b(1) pow10_pos [of E] by linarith
    have lo: "inverse (10 ^ Suc k) \<le> ?r" using b(1) p1 by simp
    have hi: "?r < inverse (10 ^ k)" using b(2) p2' by simp
    have small: "\<not> 1 \<le> ?r"
    proof -
      have "inverse ((10 :: rat) ^ k) \<le> 1"
        by (simp add: inverse_le_1_iff)
      then show ?thesis using hi by linarith
    qed
    have "inverse ?r \<le> inverse (inverse (10 ^ Suc k))"
      by (rule le_imp_inverse_le [OF lo]) simp
    then have inv_hi: "1 / ?r \<le> 10 ^ Suc k"
      by (metis inverse_inverse_eq inverse_eq_divide)
    have "inverse (inverse (10 ^ k)) < inverse ?r"
      by (rule less_imp_inverse_less [OF hi pos])
    then have inv_lo: "10 ^ k < 1 / ?r"
      by (metis inverse_inverse_eq inverse_eq_divide)
    have "\<lceil>1 / ?r\<rceil> \<le> 10 ^ Suc k"
      using inv_hi by (simp add: ceiling_le_iff)
    moreover have "(10 :: int) ^ k < \<lceil>1 / ?r\<rceil>"
      using inv_lo by (simp add: less_ceiling_iff)
    ultimately have "(10 :: int) ^ k \<le> \<lceil>1 / ?r\<rceil> - 1" and "\<lceil>1 / ?r\<rceil> - 1 < 10 ^ Suc k"
      by linarith+
    then have "ilog10 (\<lceil>1 / ?r\<rceil> - 1) = int k"
      by (rule ilog10_unique)
    then show ?thesis
      using small by (simp add: exponent10_def E)
  qed
qed

lemma round_half_even_int: "round_half_even (of_int M) = M"
  by (simp add: round_half_even_def)

lemma significant6_six:
  assumes "100000 \<le> M" and "M < 1000000"
  shows "significant6 (of_int M * pow10 (E - 5)) = (M, E)"
proof -
  have "E - 5 + (5 - E) = 0" by simp
  then have "pow10 (E - 5) * pow10 (5 - E) = 1"
    by (metis pow10_add pow10_0)
  then have "of_int M * pow10 (E - 5) * pow10 (5 - E) = (of_int M :: rat)"
    by (simp only: mult.assoc mult_1_right)
  then have "round_half_even (of_int M * pow10 (E - 5) * pow10 (5 - E)) = M"
    by (simp only: round_half_even_int)
  then show ?thesis
    using assms(2) by (simp add: significant6_def Let_def exponent10_six [OF assms])
qed


subsection \<open>Trailing zeros\<close>








lemma length_strip_zeros: "length (strip_zeros fr) \<le> length fr"
  by (simp add: strip_zeros_def length_dropWhile_le [of _ "rev fr", simplified])

subsection \<open>Parsing a rendered number\<close>










subsection \<open>Reading back a rendered number\<close>







subsection \<open>The decimal exponent of any positive rational\<close>

lemma ilog10_bounds:
  "1 \<le> n \<Longrightarrow> 0 \<le> ilog10 n \<and> 10 ^ nat (ilog10 n) \<le> n \<and> n < 10 ^ Suc (nat (ilog10 n))"
proof (induction n rule: ilog10.induct)
  case (1 n)
  show ?case
  proof (cases "n < 10")
    case True
    then show ?thesis using "1.prems" by (simp add: ilog10.simps [of n])
  next
    case False
    define q where "q = n div 10"
    have q: "1 \<le> q" using False by (simp add: q_def)
    have ih: "0 \<le> ilog10 q \<and> 10 ^ nat (ilog10 q) \<le> q \<and> q < 10 ^ Suc (nat (ilog10 q))"
      unfolding q_def using "1.IH" False q by (simp add: q_def)
    have l: "ilog10 n = 1 + ilog10 q"
      using False by (simp add: ilog10.simps [of n] q_def)
    have k: "nat (ilog10 n) = Suc (nat (ilog10 q))"
      using ih by (simp add: l nat_add_distrib)
    define j where "j = nat (ilog10 q)"
    have kj: "nat (ilog10 n) = Suc j" using k by (simp add: j_def)
    have qj: "10 ^ j \<le> q" "q < 10 ^ Suc j" using ih by (simp_all add: j_def)
    have "10 * q \<le> n" and "n < 10 * (q + 1)"
      unfolding q_def by presburger+
    moreover have "10 * 10 ^ j \<le> 10 * q" using qj by simp
    moreover have "10 * (q + 1) \<le> 10 * 10 ^ Suc j" using qj by simp
    ultimately have "10 ^ Suc j \<le> n" and "n < 10 ^ Suc (Suc j)"
      by simp_all
    moreover have "0 \<le> ilog10 n" using ih l by simp
    ultimately show ?thesis
      by (simp only: kj)
  qed
qed

lemma exponent10_bounds:
  assumes "0 < a"
  shows "pow10 (exponent10 a) \<le> a" and "a < pow10 (exponent10 a + 1)"
proof -
  have "pow10 (exponent10 a) \<le> a \<and> a < pow10 (exponent10 a + 1)"
  proof (cases "1 \<le> a")
    case True
    define n where "n = \<lfloor>a\<rfloor>"
    define k where "k = nat (ilog10 n)"
    have n: "1 \<le> n" using True by (simp add: n_def)
    note b = ilog10_bounds [OF n, folded k_def]
    have e: "exponent10 a = int k"
      using True b by (simp add: exponent10_def n_def k_def)
    have "(10 :: rat) ^ k \<le> of_int n"
      using b by simp
    moreover have "of_int n \<le> a" by (simp add: n_def)
    ultimately have lo: "10 ^ k \<le> a" by (rule order_trans)
    have "n + 1 \<le> 10 ^ Suc k" using b by simp
    then have "(of_int (n + 1) :: rat) \<le> 10 ^ Suc k"
      by (simp only: of_int_le_numeral_power_cancel_iff)
    moreover have "a < of_int (n + 1)"
      unfolding n_def by linarith
    ultimately have hi: "a < 10 ^ Suc k" by linarith
    have "pow10 (int k + 1) = 10 ^ Suc k"
      using pow10_nat [of "Suc k"] by (simp add: add.commute)
    then show ?thesis
      using lo hi by (simp add: e pow10_nat)
  next
    case False
    define n where "n = \<lceil>1 / a\<rceil> - 1"
    define k where "k = nat (ilog10 n)"
    have "1 < 1 / a" using False assms by simp
    then have n: "1 \<le> n" by (simp add: n_def less_ceiling_iff)
    note b = ilog10_bounds [OF n, folded k_def]
    have e: "exponent10 a = - (1 + int k)"
      using False b by (simp add: exponent10_def n_def k_def)
    have "of_int n < 1 / a"
      unfolding n_def by linarith
    moreover have "(10 :: rat) ^ k \<le> of_int n"
      using b by simp
    ultimately have l1: "10 ^ k < 1 / a" by linarith
    have "1 / a \<le> of_int (n + 1)"
      unfolding n_def by linarith
    moreover have "n + 1 \<le> 10 ^ Suc k" using b by simp
    then have "(of_int (n + 1) :: rat) \<le> 10 ^ Suc k"
      by (simp only: of_int_le_numeral_power_cancel_iff)
    ultimately have l2: "1 / a \<le> 10 ^ Suc k" by (rule order_trans)
    have hi: "a < 1 / 10 ^ k"
    proof -
      have "inverse (1 / a) < inverse (10 ^ k)"
        by (rule less_imp_inverse_less [OF l1]) simp
      then show ?thesis by (simp add: inverse_eq_divide)
    qed
    have lo: "1 / 10 ^ Suc k \<le> a"
    proof -
      have "inverse (10 ^ Suc k) \<le> inverse (1 / a)"
        by (rule le_imp_inverse_le [OF l2]) (use assms in simp)
      then show ?thesis by (simp add: inverse_eq_divide)
    qed
    have p1: "pow10 (- (1 + int k)) = 1 / 10 ^ Suc k"
    proof -
      have "nat (int k + 1) = Suc k" by simp
      then show ?thesis by (simp add: pow10_def)
    qed
    have p2: "pow10 (- (1 + int k) + 1) = 1 / 10 ^ k"
      by (simp add: pow10_def)
    show ?thesis
      unfolding e p1 p2 using lo hi by simp
  qed
  then show "pow10 (exponent10 a) \<le> a" and "a < pow10 (exponent10 a + 1)"
    by simp_all
qed

lemma round_half_even_near:
  shows "\<lfloor>r\<rfloor> \<le> round_half_even r" and "round_half_even r \<le> \<lfloor>r\<rfloor> + 1"
    and "\<bar>of_int (round_half_even r) - r\<bar> \<le> 1 / 2"
proof -
  define f where "f = \<lfloor>r\<rfloor>"
  define d where "d = r - of_int f"
  have d: "0 \<le> d" "d < 1" unfolding d_def f_def by linarith+
  have r: "r = of_int f + d" by (simp add: d_def)
  have cases: "round_half_even r = (if d < 1 / 2 then f else if 1 / 2 < d then f + 1
      else if even f then f else f + 1)"
    by (simp add: round_half_even_def Let_def f_def d_def)
  show "\<lfloor>r\<rfloor> \<le> round_half_even r" and "round_half_even r \<le> \<lfloor>r\<rfloor> + 1"
    unfolding cases f_def [symmetric] by simp_all
  show "\<bar>of_int (round_half_even r) - r\<bar> \<le> 1 / 2"
    unfolding cases using d by (simp add: r)
qed

lemma scaled_bounds:
  assumes "0 < a"
  shows "100000 \<le> a * pow10 (5 - exponent10 a)" and "a * pow10 (5 - exponent10 a) < 1000000"
proof -
  define e where "e = exponent10 a"
  note b = exponent10_bounds [OF assms, folded e_def]
  have "pow10 e * pow10 (5 - e) = pow10 5"
    using pow10_add [of e "5 - e"] by simp
  then have a: "pow10 e * pow10 (5 - e) = 100000" by (simp add: pow10_def)
  have "pow10 (e + 1) * pow10 (5 - e) = pow10 6"
    using pow10_add [of "e + 1" "5 - e"] by simp
  then have c: "pow10 (e + 1) * pow10 (5 - e) = 1000000" by (simp add: pow10_def)
  have "pow10 e * pow10 (5 - e) \<le> a * pow10 (5 - e)"
    using b(1) pow10_pos [of "5 - e"] by (simp add: mult_right_mono)
  then show "100000 \<le> a * pow10 (5 - exponent10 a)"
    by (simp add: a e_def [symmetric])
  have "a * pow10 (5 - e) < pow10 (e + 1) * pow10 (5 - e)"
    using b(2) pow10_pos [of "5 - e"] by (simp add: mult_strict_right_mono)
  then show "a * pow10 (5 - exponent10 a) < 1000000"
    by (simp add: c e_def [symmetric])
qed

lemma significant6_range:
  assumes "0 < a" and "significant6 a = (m, e)"
  shows "100000 \<le> m" and "m < 1000000"
    and "of_int m * pow10 (e - 5)
           = of_int (round_half_even (a * pow10 (5 - exponent10 a))) * pow10 (exponent10 a - 5)"
proof -
  define x where "x = a * pow10 (5 - exponent10 a)"
  define m0 where "m0 = round_half_even x"
  note sb = scaled_bounds [OF assms(1), folded x_def]
  have "100000 \<le> \<lfloor>x\<rfloor>" using sb(1) by (simp add: le_floor_iff)
  then have lo: "100000 \<le> m0"
    unfolding m0_def using round_half_even_near(1) [of x] by linarith
  have "\<lfloor>x\<rfloor> < 1000000" using sb(2) by (simp add: floor_less_iff)
  then have hi: "m0 \<le> 1000000"
    unfolding m0_def using round_half_even_near(2) [of x] by linarith
  have s: "significant6 a = (if 1000000 \<le> m0 then (100000, exponent10 a + 1) else (m0, exponent10 a))"
    by (simp add: significant6_def Let_def m0_def x_def)
  have "100000 \<le> m \<and> m < 1000000
      \<and> of_int m * pow10 (e - 5) = of_int m0 * pow10 (exponent10 a - 5)"
  proof (cases "1000000 \<le> m0")
    case True
    then have me: "m = 100000" "e = exponent10 a + 1" and m0: "m0 = 1000000"
      using s assms(2) hi by simp_all
    have "pow10 (e - 5) = pow10 1 * pow10 (exponent10 a - 5)"
      using pow10_add [of 1 "exponent10 a - 5"] by (simp add: me)
    then have "pow10 (e - 5) = 10 * pow10 (exponent10 a - 5)"
      by (simp add: pow10_def)
    then show ?thesis by (simp add: me(1) m0)
  next
    case False
    then have "m = m0" "e = exponent10 a" using s assms(2) by simp_all
    then show ?thesis using lo False by simp
  qed
  then show "100000 \<le> m" and "m < 1000000"
    and "of_int m * pow10 (e - 5)
           = of_int (round_half_even (a * pow10 (5 - exponent10 a))) * pow10 (exponent10 a - 5)"
    by (simp_all add: m0_def x_def)
qed

subsection \<open>A stored float is read back rounded to six digits\<close>





lemma round6_six:
  assumes "100000 \<le> M" and "M < 1000000"
  shows "round6 (of_int M * pow10 (E - 5)) = of_int M * pow10 (E - 5)"
    and "round6 (- (of_int M * pow10 (E - 5))) = - (of_int M * pow10 (E - 5))"
proof -
  have "(0 :: rat) < of_int M" using assms(1) by simp
  then have pos: "0 < of_int M * pow10 (E - 5)"
    using pow10_pos [of "E - 5"] by simp
  note s = significant6_six [OF assms, of E]
  show "round6 (of_int M * pow10 (E - 5)) = of_int M * pow10 (E - 5)"
    using pos by (simp add: round6_def s)
  show "round6 (- (of_int M * pow10 (E - 5))) = - (of_int M * pow10 (E - 5))"
    using pos by (simp add: round6_def s)
qed

lemma round6_near:
  assumes "r \<noteq> 0"
  shows "\<bar>round6 r - r\<bar> \<le> pow10 (exponent10 \<bar>r\<bar> - 5) / 2"
proof -
  define a where "a = \<bar>r\<bar>"
  define e where "e = exponent10 a"
  define x where "x = a * pow10 (5 - e)"
  have a: "0 < a" using assms by (simp add: a_def)
  obtain m e' where s: "significant6 a = (m, e')" by (cases "significant6 a")
  note rg = significant6_range [OF a s, folded e_def x_def]
  have "pow10 (5 - e) * pow10 (e - 5) = 1"
    using pow10_add [of "5 - e" "e - 5"] by (simp add: pow10_0)
  then have xa: "x * pow10 (e - 5) = a"
    by (simp add: x_def mult.assoc)
  have "round6 r = sgn r * (of_int m * pow10 (e' - 5))"
    using assms s by (simp add: round6_def a_def)
  then have r6: "round6 r = sgn r * (of_int (round_half_even x) * pow10 (e - 5))"
    by (simp only: rg(3) x_def)
  have "r = sgn r * a" by (simp add: a_def sgn_mult_abs)
  then have "r = sgn r * (x * pow10 (e - 5))" by (simp only: xa)
  then have "round6 r - r = sgn r * ((of_int (round_half_even x) - x) * pow10 (e - 5))"
    unfolding r6 by (simp add: algebra_simps)
  then have "\<bar>round6 r - r\<bar> = \<bar>of_int (round_half_even x) - x\<bar> * pow10 (e - 5)"
    using assms pow10_pos [of "e - 5"] by (simp add: abs_mult abs_sgn_eq)
  also have "\<dots> \<le> 1 / 2 * pow10 (e - 5)"
    using round_half_even_near(3) [of x] pow10_pos [of "e - 5"]
    by (intro mult_right_mono) simp_all
  finally show ?thesis by (simp add: e_def a_def)
qed


section \<open>The round trip\<close>




section \<open>Copying a list\<close>

text \<open>
  Claim C6 fails on the code. The list \<open>L\<close> holds one item with quantity 0,5, price 12,5
  and checked. The copy \<open>M\<close> has price 0 and is not checked, with the same category, name
  and unit, but its quantity is 0: the form parses the sheet's text without replacing the
  decimal comma. And with ten lists, a copy of the first one deletes it and then fails to
  find it.
\<close>

theorem copy_loses_quantity:
  "new_list True Api_ok
     [(''L'', [expected_cols, [verduras, ''Zapallo'', ''0,5'', ''kg'', ''12,5'', ''TRUE'']])]
     ''M'' (Copia ''L'')
   = ([(''L'', [expected_cols, [verduras, ''Zapallo'', ''0,5'', ''kg'', ''12,5'', ''TRUE'']]),
       (''M'', [expected_cols, [verduras, ''Zapallo'', ''0'', ''kg'', ''0'', ''FALSE'']])],
      [], Created)
   \<and> new_list True Api_ok
     [(''Hoja1'', []), (''L01'', []), (''L02'', []), (''L03'', []),
      (''L04'', []), (''L05'', []), (''L06'', []), (''L07'', []),
      (''L08'', []), (''L09'', []), (''L10'', [])] ''L99'' (Copia ''L01'')
   = ([(''Hoja1'', []), (''L02'', []), (''L03'', []), (''L04'', []),
      (''L05'', []), (''L06'', []), (''L07'', []), (''L08'', []),
      (''L09'', []), (''L10'', [])],
      [], Raised WorksheetNotFound)"
  by code_simp

end
